theory Spec2Isabelle
  imports Main
begin

section \<open>The homepage feature component\<close>

text \<open>
  The only executable code of the documentation site is the React component of
  \<^verbatim>\<open>src/components/HomepageFeatures/index.tsx\<close>. It is a pure function from the
  constant \<^verbatim>\<open>FeatureList\<close> to a tree of elements: no hooks, no state, no props.
  The embedding below keeps that shape. What a JSX expression evaluates to is a tree
  of elements, so the result type is such a tree.
\<close>

subsection \<open>Element trees\<close>

text \<open>
  A \<^verbatim>\<open>ReactNode\<close> as this file builds them: a text, a fragment \<^verbatim>\<open><>...</>\<close>, an
  element with its tag (a host tag such as \<^verbatim>\<open>div\<close>, or the name of an imported
  component such as \<^verbatim>\<open>Heading\<close>), its props in source order and its children, and a
  child that carries a \<^verbatim>\<open>key\<close>.
\<close>

datatype node =
    Text string
  | Fragment "node list"
  | Element string "(string \<times> string) list" "node list"
  | Keyed nat node

text \<open>
  \<^verbatim>\<open>type FeatureItem = { title: string; Svg: ...; description: ReactNode }\<close>.
  The \<^verbatim>\<open>Svg\<close> field is the default export of an image module; it is identified by the
  path given to \<^verbatim>\<open>require\<close>.
\<close>

record FeatureItem =
  title :: string
  Svg :: string
  description :: node

text \<open>
  \<^verbatim>\<open>import styles from './styles.module.css'\<close>: the style sheet is outside the
  component, so the two class names read from it are parameters.
\<close>

record styles =
  features :: string
  featureSvg :: string

subsection \<open>The feature list\<close>

text \<open>
  The text of a description is given as JSX compiles it: each source line trimmed,
  the lines joined by one space.
\<close>

definition FeatureList :: "FeatureItem list" where
  "FeatureList =
    [ \<lparr> title = ''Advanced Document Intelligence'',
        Svg = ''@site/static/img/undraw_docusaurus_mountain.svg'',
        description = Fragment [Text
          (''Efficiently parse, catalog, tag, store, and manage large-scale document sets. '' @
           ''Quickly query and retrieve information from complex documents, enhancing agent accuracy and reducing manual data handling'')] \<rparr>,
      \<lparr> title = ''Seamless Agent Integration'',
        Svg = ''@site/static/img/undraw_docusaurus_tree.svg'',
        description = Fragment [Text
          (''Easily create, customize, and deploy AI agents capable of autonomously executing operations via seamless third-party integrations. '' @
           ''Automate workflows across existing systems, boosting productivity and reducing human oversight'')] \<rparr>,
      \<lparr> title = ''Developer-First Experience'',
        Svg = ''@site/static/img/undraw_docusaurus_react.svg'',
        description = Fragment [Text
          (''Designed with developers in mind: intuitive SDKs, comprehensive APIs, robust CLI tools, and thorough documentation. '' @
           ''Accelerate development timelines and reduce complexity, ensuring rapid adoption and ease of use for technical teams.'')] \<rparr> ]"

subsection \<open>Library functions the component calls\<close>

text \<open>
  \<^verbatim>\<open>clsx\<close> on string arguments: the arguments that are not empty, joined by a space,
  accumulated from left to right.
\<close>

definition clsx :: "string list \<Rightarrow> string" where
  "clsx args =
     foldl (\<lambda>str x. if x = [] then str else (if str = [] then x else str @ '' '' @ x)) [] args"

text \<open>\<^verbatim>\<open>Array.prototype.map\<close> with the two-argument callback \<^verbatim>\<open>(element, index)\<close>.\<close>

definition map_with_index :: "('a \<Rightarrow> nat \<Rightarrow> 'b) \<Rightarrow> 'a list \<Rightarrow> 'b list" where
  "map_with_index f xs = map (\<lambda>(idx, x). f x idx) (enumerate 0 xs)"

subsection \<open>The components\<close>

text \<open>\<^verbatim>\<open>function Feature({title, Svg, description}: FeatureItem)\<close>\<close>

definition Feature :: "styles \<Rightarrow> FeatureItem \<Rightarrow> node" where
  "Feature st props =
     Element ''div'' [(''className'', clsx [''col col--4''])]
       [ Element ''div'' [(''className'', ''text--center'')]
           [ Element (Svg props) [(''className'', featureSvg st), (''role'', ''img'')] [] ],
         Element ''div'' [(''className'', ''text--center padding-horiz--md'')]
           [ Element ''Heading'' [(''as'', ''h3'')] [Text (title props)],
             Element ''p'' [] [description props] ] ]"

text \<open>\<^verbatim>\<open>export default function HomepageFeatures(): ReactNode\<close>\<close>

definition HomepageFeatures :: "styles \<Rightarrow> node" where
  "HomepageFeatures st =
     Element ''section'' [(''className'', features st)]
       [ Element ''div'' [(''className'', ''container'')]
           [ Element ''div'' [(''className'', ''row'')]
               (map_with_index (\<lambda>props idx. Keyed idx (Feature st props)) FeatureList) ] ]"

subsection \<open>Observing a tree\<close>

text \<open>
  The queries a test of the rendered page would make: every node of a tree in document
  order, the nodes with a given tag, the children of a node, the text under a node, and
  the keyed children with their keys.
\<close>

fun subtrees :: "node \<Rightarrow> node list" where
  "subtrees (Text s) = [Text s]"
| "subtrees (Fragment ns) = Fragment ns # concat (map subtrees ns)"
| "subtrees (Element t ps ns) = Element t ps ns # concat (map subtrees ns)"
| "subtrees (Keyed k n) = Keyed k n # subtrees n"

fun has_tag :: "string \<Rightarrow> node \<Rightarrow> bool" where
  "has_tag t (Element t' ps ns) = (t' = t)"
| "has_tag t (Text s) = False"
| "has_tag t (Fragment ns) = False"
| "has_tag t (Keyed k n) = False"

definition find_all :: "string \<Rightarrow> node \<Rightarrow> node list" where
  "find_all t n = filter (has_tag t) (subtrees n)"

fun child_nodes :: "node \<Rightarrow> node list" where
  "child_nodes (Text s) = []"
| "child_nodes (Fragment ns) = ns"
| "child_nodes (Element t ps ns) = ns"
| "child_nodes (Keyed k n) = [n]"

fun text_content :: "node \<Rightarrow> string" where
  "text_content (Text s) = s"
| "text_content (Fragment ns) = concat (map text_content ns)"
| "text_content (Element t ps ns) = concat (map text_content ns)"
| "text_content (Keyed k n) = text_content n"

fun keyed :: "node \<Rightarrow> (nat \<times> node) list" where
  "keyed (Keyed k n) = [(k, n)]"
| "keyed (Text s) = []"
| "keyed (Fragment ns) = []"
| "keyed (Element t ps ns) = []"

definition feature_blocks :: "node \<Rightarrow> (nat \<times> node) list" where
  "feature_blocks n = concat (map keyed (subtrees n))"

section \<open>Properties\<close>

lemma clsx_single: "s \<noteq> [] \<Longrightarrow> clsx [s] = s"
  by (simp add: clsx_def)

lemma clsx_col: "clsx [''col col--4''] = ''col col--4''"
  by (simp add: clsx_def)

lemma length_map_with_index: "length (map_with_index f xs) = length xs"
  by (simp add: map_with_index_def)

lemma nth_map_with_index:
  assumes "i < length xs"
  shows "map_with_index f xs ! i = f (xs ! i) i"
  using assms by (simp add: map_with_index_def nth_enumerate_eq)

lemma length_FeatureList: "length FeatureList = 3"
  by (simp add: FeatureList_def)

lemma titles_FeatureList:
  "map title FeatureList =
     [''Advanced Document Intelligence'', ''Seamless Agent Integration'',
      ''Developer-First Experience'']"
  by (simp add: FeatureList_def)

text \<open>
  Every node that \<open>Feature\<close> builds for an item holds the item's title as the text
  of its heading and the item's description as the child of its paragraph, whatever
  the item is.
\<close>

lemma Feature_child_nodes:
  "child_nodes (Feature st props) =
     [ Element ''div'' [(''className'', ''text--center'')]
         [ Element (Svg props) [(''className'', featureSvg st), (''role'', ''img'')] [] ],
       Element ''div'' [(''className'', ''text--center padding-horiz--md'')]
         [ Element ''Heading'' [(''as'', ''h3'')] [Text (title props)],
           Element ''p'' [] [description props] ] ]"
  by (simp add: Feature_def)

lemma Feature_renders_title:
  "Element ''Heading'' [(''as'', ''h3'')] [Text (title props)] \<in> set (subtrees (Feature st props))"
  by (simp add: Feature_def)

lemma Feature_renders_description:
  "description props \<in> set (subtrees (Feature st props))"
proof -
  have "description props \<in> set (subtrees (description props))"
    by (cases "description props") simp_all
  then show ?thesis
    by (simp add: Feature_def)
qed

text \<open>
  The row of the page holds the keyed children that the \<^verbatim>\<open>map\<close> over
  \<^verbatim>\<open>FeatureList\<close> produced, and nothing else of the page is keyed.
\<close>

lemma feature_blocks_HomepageFeatures:
  "feature_blocks (HomepageFeatures st) =
     map (\<lambda>(idx, props). (idx, Feature st props)) (enumerate 0 FeatureList)"
  by (simp add: feature_blocks_def HomepageFeatures_def map_with_index_def Feature_def
      FeatureList_def enumerate_eq_zip upt_rec)

lemma feature_block_keys: "map fst (feature_blocks (HomepageFeatures st)) = [0, 1, 2]"
  by (simp add: feature_blocks_HomepageFeatures FeatureList_def enumerate_eq_zip upt_rec)

lemma feature_block_nodes:
  "map snd (feature_blocks (HomepageFeatures st)) = map (Feature st) FeatureList"
  by (simp add: feature_blocks_HomepageFeatures FeatureList_def enumerate_eq_zip upt_rec)

lemma feature_block_headings:
  "map (\<lambda>(k, b). map text_content (find_all ''Heading'' b)) (feature_blocks (HomepageFeatures st)) =
     map (\<lambda>it. [title it]) FeatureList"
  by (simp add: feature_blocks_HomepageFeatures FeatureList_def enumerate_eq_zip upt_rec
      Feature_def find_all_def)

lemma feature_block_paragraphs:
  "map (\<lambda>(k, b). concat (map child_nodes (find_all ''p'' b))) (feature_blocks (HomepageFeatures st)) =
     map (\<lambda>it. [description it]) FeatureList"
  by (simp add: feature_blocks_HomepageFeatures FeatureList_def enumerate_eq_zip upt_rec
      Feature_def find_all_def)

lemma page_headings:
  "map text_content (find_all ''Heading'' (HomepageFeatures st)) = map title FeatureList"
  by (simp add: HomepageFeatures_def map_with_index_def Feature_def FeatureList_def
      find_all_def enumerate_eq_zip upt_rec)

text \<open>
  Claim C10. \<open>HomepageFeatures\<close> takes no props: the tree it returns is a function of the
  imported style sheet alone, so every render gives the same tree. That tree holds
  exactly one Feature block per entry of \<open>FeatureList\<close>: three of them, keyed 0, 1, 2,
  each the \<open>Feature\<close> of the entry at that position, in the order of declaration. The
  entries are titled 'Advanced Document Intelligence', 'Seamless Agent Integration' and
  'Developer-First Experience'. The one heading of each block shows the entry's title,
  the one paragraph of each block holds the entry's description, and the headings of
  the whole page, read in document order, are the three titles.
\<close>

theorem HomepageFeatures_renders_FeatureList:
  "map title FeatureList =
     [''Advanced Document Intelligence'', ''Seamless Agent Integration'',
      ''Developer-First Experience'']
   \<and> length (feature_blocks (HomepageFeatures st)) = 3
   \<and> map fst (feature_blocks (HomepageFeatures st)) = [0, 1, 2]
   \<and> map snd (feature_blocks (HomepageFeatures st)) = map (Feature st) FeatureList
   \<and> map (\<lambda>(k, b). map text_content (find_all ''Heading'' b))
         (feature_blocks (HomepageFeatures st)) =
       map (\<lambda>it. [title it]) FeatureList
   \<and> map (\<lambda>(k, b). concat (map child_nodes (find_all ''p'' b)))
         (feature_blocks (HomepageFeatures st)) =
       map (\<lambda>it. [description it]) FeatureList
   \<and> map text_content (find_all ''Heading'' (HomepageFeatures st)) = map title FeatureList"
proof -
  have "length (feature_blocks (HomepageFeatures st)) = 3"
    by (simp add: feature_blocks_HomepageFeatures length_FeatureList)
  then show ?thesis
    using titles_FeatureList feature_block_keys feature_block_nodes feature_block_headings
      feature_block_paragraphs page_headings
    by blast
qed

end
